theory Spec2Isabelle
  imports Main
begin

section \<open>The user records view (ui/src/components/Home.vue)\<close>

text \<open>
  The script block of \<^verbatim>\<open>Home.vue\<close> holds the reactive variables of the view and ten
  handlers that read and write them, call \<^verbatim>\<open>fetch\<close> and call \<^verbatim>\<open>setTimeout\<close>. The model
  below is a state-passing embedding of that block:
  \<^item> the reactive variables are the fields of the record \<open>view\<close>;
  \<^item> every \<^verbatim>\<open>fetch\<close> call appends the request it makes to the field \<open>requests\<close>, and
    the reply of the server is an argument of the handler that awaits it;
  \<^item> every \<^verbatim>\<open>setTimeout\<close> call appends the deadline of its callback to the field
    \<open>timers\<close>; the field \<open>now\<close> is the clock in milliseconds, moved by \<open>elapse\<close>;
  \<^item> an exception thrown inside a \<^verbatim>\<open>try\<close> block is the text of its \<^verbatim>\<open>message\<close>
    property, which is all that the \<^verbatim>\<open>catch\<close> blocks read.

  A handler that awaits runs to its end before the next event is taken: the model does
  not interleave two handlers, and no time passes while a handler waits for its reply.
  The variable \<^verbatim>\<open>index\<close> and the interval that rotates the background image touch no
  other variable and are left out.
\<close>

subsection \<open>Strings and numbers of the runtime\<close>

text \<open>
  A JavaScript string is a sequence of UTF-16 code units; each is a natural number here.
  \<open>ascii\<close> turns a literal of ASCII characters into its code units.
\<close>

type_synonym jstring = "nat list"

definition ascii :: "string \<Rightarrow> jstring" where
  "ascii s = map of_char s"

text \<open>
  The texts that differ between engines, or that depend on the floating-point value of a
  number, are parameters of the model: the messages of the two TypeErrors that the
  runtime raises on \<^verbatim>\<open>null\<close>, and the text of a number beyond the safe integers.
\<close>

record runtime =
  nullProperty :: jstring
  nullToObject :: jstring
  largeNumber :: "int \<Rightarrow> jstring"

text \<open>
  Identifiers have the type \<^verbatim>\<open>number\<close>, a double; the model takes them as integers.
  Up to \<^verbatim>\<open>Number.MAX_SAFE_INTEGER\<close> in magnitude every integer is a double, and the text
  that a template literal gives it is its decimal expansion, with a minus sign when it
  is negative. Beyond, the text is made of the shortest digits that identify the double
  (and takes an exponent from \<open>10\<^sup>2\<^sup>1\<close> on): there \<open>number_to_string\<close> asks the
  runtime.
\<close>

fun digits :: "nat \<Rightarrow> jstring" where
  "digits n = (if n < 10 then [48 + n] else digits (n div 10) @ [48 + n mod 10])"

declare digits.simps [simp del]

definition decimal :: "int \<Rightarrow> jstring" where
  "decimal i = (if i < 0 then 45 # digits (nat (- i)) else digits (nat i))"

definition MAX_SAFE_INTEGER :: int where
  "MAX_SAFE_INTEGER = 9007199254740991"

definition is_safe_integer :: "int \<Rightarrow> bool" where
  "is_safe_integer i = (- MAX_SAFE_INTEGER \<le> i \<and> i \<le> MAX_SAFE_INTEGER)"

definition number_to_string :: "runtime \<Rightarrow> int \<Rightarrow> jstring" where
  "number_to_string rt i = (if is_safe_integer i then decimal i else largeNumber rt i)"

subsection \<open>JSON values and the error-message expressions\<close>

text \<open>
  A parsed JSON value. \<open>JObj\<close> lists the own properties of the object in the order in
  which the runtime enumerates them, each key once. Numbers are integers, printed by
  \<open>number_to_string\<close>.
\<close>

datatype json =
    JNull
  | JBool bool
  | JNum int
  | JStr jstring
  | JArr "json list"
  | JObj "(jstring \<times> json) list"

fun join :: "jstring \<Rightarrow> jstring list \<Rightarrow> jstring" where
  "join sep [] = []"
| "join sep [x] = x"
| "join sep (x # y # ys) = x @ sep @ join sep (y # ys)"

text \<open>
  The string conversion that \<^verbatim>\<open>new Error(v)\<close> and \<^verbatim>\<open>Array.prototype.join\<close> apply to a
  value: an array is its elements joined with a comma, \<^verbatim>\<open>null\<close> elements being empty.
\<close>

fun to_string :: "runtime \<Rightarrow> json \<Rightarrow> jstring" where
  "to_string rt JNull = ascii ''null''"
| "to_string rt (JBool b) = (if b then ascii ''true'' else ascii ''false'')"
| "to_string rt (JNum n) = number_to_string rt n"
| "to_string rt (JStr s) = s"
| "to_string rt (JArr xs) =
     join (ascii '','') (map (\<lambda>x. if x = JNull then [] else to_string rt x) xs)"
| "to_string rt (JObj kvs) = ascii ''[object Object]''"

definition array_join :: "runtime \<Rightarrow> jstring \<Rightarrow> json list \<Rightarrow> jstring" where
  "array_join rt sep xs =
     join sep (map (\<lambda>x. if x = JNull then [] else to_string rt x) xs)"

text \<open>\<^verbatim>\<open>Array.prototype.flat()\<close>, one level deep.\<close>

definition flat :: "json list \<Rightarrow> json list" where
  "flat xs = concat (map (\<lambda>x. case x of JArr ys \<Rightarrow> ys | _ \<Rightarrow> [x]) xs)"

text \<open>
  \<^verbatim>\<open>Object.values(v)\<close>: \<open>None\<close> is the TypeError that \<^verbatim>\<open>null\<close> raises; a string gives
  its code units, a number or a boolean gives no value.
\<close>

fun object_values :: "json \<Rightarrow> json list option" where
  "object_values JNull = None"
| "object_values (JObj kvs) = Some (map snd kvs)"
| "object_values (JArr xs) = Some xs"
| "object_values (JStr s) = Some (map (\<lambda>c. JStr [c]) s)"
| "object_values (JBool b) = Some []"
| "object_values (JNum n) = Some []"

text \<open>The left operand of \<^verbatim>\<open>||\<close> is kept when it is truthy.\<close>

fun truthy :: "json \<Rightarrow> bool" where
  "truthy JNull = False"
| "truthy (JBool b) = b"
| "truthy (JNum n) = (n \<noteq> 0)"
| "truthy (JStr s) = (s \<noteq> [])"
| "truthy (JArr xs) = True"
| "truthy (JObj kvs) = True"

text \<open>
  The message of the exception that
  \<^verbatim>\<open>throw new Error(errData.detail || fallback)\<close> raises.
\<close>

fun detail_error :: "runtime \<Rightarrow> json \<Rightarrow> jstring \<Rightarrow> jstring" where
  "detail_error rt JNull fallback = nullProperty rt"
| "detail_error rt (JObj kvs) fallback =
     (case map_of kvs (ascii ''detail'') of
        None \<Rightarrow> fallback
      | Some v \<Rightarrow> if truthy v then to_string rt v else fallback)"
| "detail_error rt v fallback = fallback"

text \<open>
  The message of the exception that
  \<^verbatim>\<open>throw new Error(Object.values(errData).flat().join(', ') || fallback)\<close> raises.
\<close>

definition values_error :: "runtime \<Rightarrow> json \<Rightarrow> jstring \<Rightarrow> jstring" where
  "values_error rt errData fallback =
     (case object_values errData of
        None \<Rightarrow> nullToObject rt
      | Some vs \<Rightarrow>
          (let m = array_join rt (ascii '', '') (flat vs)
           in if m = [] then fallback else m))"

subsection \<open>Requests and replies\<close>

datatype http_method = GET | POST | PUT | DELETE

record request =
  req_method :: http_method
  url :: jstring
  headers :: "(jstring \<times> jstring) list"
  body :: "json option"

text \<open>
  \<open>body\<close> is the value handed to \<^verbatim>\<open>JSON.stringify\<close>, \<open>None\<close> when the call has no body.

  A reply to \<^verbatim>\<open>fetch\<close>: the promise rejects with an error of the given message, or it
  resolves with \<^verbatim>\<open>res.ok\<close> false, or with \<^verbatim>\<open>res.ok\<close> true. \<^verbatim>\<open>res.json()\<close> either
  throws or returns the parsed body. The body of a reply that is ok is read by
  \<open>fetchUsers\<close> only, which stores it in a variable of the type \<^verbatim>\<open>User[]\<close>.
\<close>

datatype 'a json_result = Throws jstring | Returns 'a

datatype 'a response = Rejected jstring | NotOk "json json_result" | Ok 'a

definition API_URL :: jstring where
  "API_URL = ascii ''http://127.0.0.1:8000/api/users/''"

subsection \<open>The reactive state\<close>

record user =
  id_user :: int
  name :: jstring
  email :: jstring

datatype popup_type = Success | Error

record view =
  users :: "user list"
  newUser :: user
  isEditing :: bool
  editingId :: "int option"
  message :: jstring
  showMessage :: bool
  messageType :: popup_type
  confirmVisible :: bool
  confirmUserId :: "int option"
  requests :: "request list"
  timers :: "nat list"
  now :: nat

type_synonym list_reply = "user list json_result response"
type_synonym write_reply = "unit response"

definition empty_user :: user where
  "empty_user = \<lparr>id_user = 0, name = [], email = []\<rparr>"

definition init :: view where
  "init = \<lparr>users = [], newUser = empty_user, isEditing = False, editingId = None,
           message = [], showMessage = False, messageType = Success,
           confirmVisible = False, confirmUserId = None,
           requests = [], timers = [], now = 0\<rparr>"

subsection \<open>The handlers\<close>

text \<open>\<^verbatim>\<open>fetch(url, options)\<close>: the request is on its way.\<close>

definition fetch :: "request \<Rightarrow> view \<Rightarrow> view" where
  "fetch r s = s\<lparr>requests := requests s @ [r]\<rparr>"

definition json_headers :: "(jstring \<times> jstring) list" where
  "json_headers = [(ascii ''Content-Type'', ascii ''application/json'')]"

text \<open>The object literal \<^verbatim>\<open>{ name: newUser.value.name, email: newUser.value.email }\<close>.\<close>

definition name_email :: "user \<Rightarrow> json" where
  "name_email u = JObj [(ascii ''name'', JStr (name u)), (ascii ''email'', JStr (email u))]"

definition list_request :: request where
  "list_request = \<lparr>req_method = GET, url = API_URL, headers = [], body = None\<rparr>"

definition create_request :: "user \<Rightarrow> request" where
  "create_request u =
     \<lparr>req_method = POST, url = API_URL, headers = json_headers, body = Some (name_email u)\<rparr>"

definition update_request :: "runtime \<Rightarrow> int \<Rightarrow> user \<Rightarrow> request" where
  "update_request rt i u =
     \<lparr>req_method = PUT, url = API_URL @ number_to_string rt i @ ascii ''/'',
      headers = json_headers, body = Some (name_email u)\<rparr>"

definition delete_request :: "runtime \<Rightarrow> int \<Rightarrow> request" where
  "delete_request rt i =
     \<lparr>req_method = DELETE, url = API_URL @ number_to_string rt i @ ascii ''/'',
      headers = [], body = None\<rparr>"

definition openConfirm :: "int \<Rightarrow> view \<Rightarrow> view" where
  "openConfirm i s = s\<lparr>confirmUserId := Some i, confirmVisible := True\<rparr>"

definition cancelDelete :: "view \<Rightarrow> view" where
  "cancelDelete s = s\<lparr>confirmVisible := False, confirmUserId := None\<rparr>"

text \<open>
  \<open>showPopup\<close> writes the three popup variables and schedules the callback that hides
  the popup 2000 ms later. The handle that \<^verbatim>\<open>setTimeout\<close> returns is dropped: no
  callback is ever cancelled.
\<close>

definition showPopup :: "jstring \<Rightarrow> popup_type \<Rightarrow> view \<Rightarrow> view" where
  "showPopup msg type s =
     s\<lparr>message := msg, messageType := type, showMessage := True,
       timers := timers s @ [now s + 2000]\<rparr>"

text \<open>
  \<open>elapse d\<close>: \<open>d\<close> milliseconds pass with no other event. Every callback whose deadline
  is reached runs, and each of them is \<^verbatim>\<open>showMessage.value = false\<close>.
\<close>

definition elapse :: "nat \<Rightarrow> view \<Rightarrow> view" where
  "elapse d s =
     (let t = now s + d;
          due = filter (\<lambda>x. x \<le> t) (timers s)
      in s\<lparr>now := t,
           timers := filter (\<lambda>x. t < x) (timers s),
           showMessage := (if due = [] then showMessage s else False)\<rparr>)"

definition warning :: jstring where
  "warning = [0x26A0, 0xFE0F]"

text \<open>The \<^verbatim>\<open>catch\<close> block shared by the four handlers that call the server.\<close>

definition catch_popup :: "jstring \<Rightarrow> view \<Rightarrow> view" where
  "catch_popup err_message s = showPopup (warning @ ascii '' '' @ err_message) Error s"

definition fetchUsers :: "runtime \<Rightarrow> list_reply \<Rightarrow> view \<Rightarrow> view" where
  "fetchUsers rt reply s =
     (let s1 = fetch list_request s in
      case reply of
        Rejected m \<Rightarrow> catch_popup m s1
      | NotOk (Throws m) \<Rightarrow> catch_popup m s1
      | NotOk (Returns errData) \<Rightarrow>
          catch_popup (detail_error rt errData (ascii ''Failed to fetch users'')) s1
      | Ok (Throws m) \<Rightarrow> catch_popup m s1
      | Ok (Returns us) \<Rightarrow> s1\<lparr>users := us\<rparr>)"

definition addUser :: "runtime \<Rightarrow> write_reply \<Rightarrow> list_reply \<Rightarrow> view \<Rightarrow> view" where
  "addUser rt reply listed s =
     (if name (newUser s) = [] \<or> email (newUser s) = []
      then showPopup (ascii ''Please fill all fields'') Error s
      else
        let s1 = fetch (create_request (newUser s)) s in
        case reply of
          Rejected m \<Rightarrow> catch_popup m s1
        | NotOk (Throws m) \<Rightarrow> catch_popup m s1
        | NotOk (Returns errData) \<Rightarrow>
            catch_popup (values_error rt errData (ascii ''Failed to add user'')) s1
        | Ok _ \<Rightarrow>
            showPopup (0x2705 # ascii '' User added successfully!'') Success
              ((fetchUsers rt listed s1)\<lparr>newUser := empty_user\<rparr>))"

definition editUser :: "user \<Rightarrow> view \<Rightarrow> view" where
  "editUser u s = s\<lparr>isEditing := True, editingId := Some (id_user u), newUser := u\<rparr>"

definition cancelEdit :: "view \<Rightarrow> view" where
  "cancelEdit s =
     showPopup (0x274C # ascii '' Edit cancelled'') Error
       (s\<lparr>isEditing := False, editingId := None, newUser := empty_user\<rparr>)"

text \<open>
  \<^verbatim>\<open>if (!editingId.value) return\<close>: the guard is a truthiness test, which \<^verbatim>\<open>null\<close> and
  the number 0 both fail.
\<close>

definition updateUser :: "runtime \<Rightarrow> write_reply \<Rightarrow> list_reply \<Rightarrow> view \<Rightarrow> view" where
  "updateUser rt reply listed s =
     (case editingId s of
        None \<Rightarrow> s
      | Some i \<Rightarrow>
          if i = 0 then s
          else
            let s1 = fetch (update_request rt i (newUser s)) s in
            (case reply of
               Rejected m \<Rightarrow> catch_popup m s1
             | NotOk (Throws m) \<Rightarrow> catch_popup m s1
             | NotOk (Returns errData) \<Rightarrow>
                 catch_popup (values_error rt errData (ascii ''Failed to update user'')) s1
             | Ok _ \<Rightarrow>
                 showPopup (0x2705 # ascii '' User updated successfully!'') Success
                   (cancelEdit (fetchUsers rt listed s1))))"

definition deleteUser :: "runtime \<Rightarrow> int \<Rightarrow> write_reply \<Rightarrow> list_reply \<Rightarrow> view \<Rightarrow> view" where
  "deleteUser rt i reply listed s =
     (let s1 = fetch (delete_request rt i) s in
      case reply of
        Rejected m \<Rightarrow> catch_popup m s1
      | NotOk (Throws m) \<Rightarrow> catch_popup m s1
      | NotOk (Returns errData) \<Rightarrow>
          catch_popup (detail_error rt errData (ascii ''Failed to delete user'')) s1
      | Ok _ \<Rightarrow>
          showPopup ([0xD83D, 0xDDD1, 0xFE0F] @ ascii '' User deleted successfully!'') Success
            (fetchUsers rt listed s1))"

definition confirmDelete :: "runtime \<Rightarrow> write_reply \<Rightarrow> list_reply \<Rightarrow> view \<Rightarrow> view" where
  "confirmDelete rt reply listed s =
     (case confirmUserId s of
        None \<Rightarrow> s
      | Some i \<Rightarrow> (deleteUser rt i reply listed s)\<lparr>confirmVisible := False, confirmUserId := None\<rparr>)"

subsection \<open>Events of the page\<close>

text \<open>
  What can happen to the view: the component is mounted, the operator types into one
  of the two inputs (\<^verbatim>\<open>v-model\<close>), clicks one of the buttons of the template, or time
  passes. An event that reaches the server carries the replies it will get.
\<close>

datatype event =
    Mounted list_reply
  | InputName jstring
  | InputEmail jstring
  | ClickAdd write_reply list_reply
  | ClickEdit user
  | ClickUpdate write_reply list_reply
  | ClickCancelEdit
  | ClickDelete int
  | ClickConfirmYes write_reply list_reply
  | ClickConfirmNo
  | Elapsed nat

fun step :: "runtime \<Rightarrow> view \<Rightarrow> event \<Rightarrow> view" where
  "step rt s (Mounted listed) = fetchUsers rt listed s"
| "step rt s (InputName x) = s\<lparr>newUser := (newUser s)\<lparr>name := x\<rparr>\<rparr>"
| "step rt s (InputEmail x) = s\<lparr>newUser := (newUser s)\<lparr>email := x\<rparr>\<rparr>"
| "step rt s (ClickAdd reply listed) = addUser rt reply listed s"
| "step rt s (ClickEdit u) = editUser u s"
| "step rt s (ClickUpdate reply listed) = updateUser rt reply listed s"
| "step rt s ClickCancelEdit = cancelEdit s"
| "step rt s (ClickDelete i) = openConfirm i s"
| "step rt s (ClickConfirmYes reply listed) = confirmDelete rt reply listed s"
| "step rt s ClickConfirmNo = cancelDelete s"
| "step rt s (Elapsed d) = elapse d s"

definition run :: "runtime \<Rightarrow> event list \<Rightarrow> view" where
  "run rt evs = foldl (step rt) init evs"

text \<open>The requests that a handler added to the log of \<open>s\<close>.\<close>

definition issued :: "view \<Rightarrow> view \<Rightarrow> request list" where
  "issued s s' = drop (length (requests s)) (requests s')"

subsection \<open>Outcomes of a reply\<close>

text \<open>The promise resolved and \<^verbatim>\<open>res.ok\<close> is true.\<close>

fun is_ok :: "'a response \<Rightarrow> bool" where
  "is_ok (Ok x) = True"
| "is_ok r = False"

text \<open>The list that \<open>fetchUsers\<close> reads from a reply, when it reads one.\<close>

fun listed_users :: "list_reply \<Rightarrow> user list option" where
  "listed_users (Ok (Returns us)) = Some us"
| "listed_users r = None"




text \<open>The two pairs of variables that go together.\<close>

definition consistent :: "view \<Rightarrow> bool" where
  "consistent s =
     (isEditing s = (editingId s \<noteq> None) \<and> confirmVisible s = (confirmUserId s \<noteq> None))"

text \<open>The error body of the scenario \<^verbatim>\<open>{"email":["already exists"]}\<close>.\<close>

definition already_exists :: json where
  "already_exists = JObj [(ascii ''email'', JArr [JStr (ascii ''already exists'')])]"

text \<open>A record of the list, as the server sends it.\<close>

definition ann :: user where
  "ann = \<lparr>id_user = 7, name = ascii ''Ann'', email = ascii ''ann@example.org''\<rparr>"

section \<open>What each handler reads and writes\<close>

lemma showPopup_fields [simp]:
  "users (showPopup m k s) = users s"
  "newUser (showPopup m k s) = newUser s"
  "isEditing (showPopup m k s) = isEditing s"
  "editingId (showPopup m k s) = editingId s"
  "confirmVisible (showPopup m k s) = confirmVisible s"
  "confirmUserId (showPopup m k s) = confirmUserId s"
  "requests (showPopup m k s) = requests s"
  "now (showPopup m k s) = now s"
  "message (showPopup m k s) = m"
  "messageType (showPopup m k s) = k"
  "showMessage (showPopup m k s) = True"
  "timers (showPopup m k s) = timers s @ [now s + 2000]"
  by (simp_all add: showPopup_def)

lemma catch_popup_fields [simp]:
  "users (catch_popup m s) = users s"
  "newUser (catch_popup m s) = newUser s"
  "isEditing (catch_popup m s) = isEditing s"
  "editingId (catch_popup m s) = editingId s"
  "confirmVisible (catch_popup m s) = confirmVisible s"
  "confirmUserId (catch_popup m s) = confirmUserId s"
  "requests (catch_popup m s) = requests s"
  "now (catch_popup m s) = now s"
  "message (catch_popup m s) = warning @ ascii '' '' @ m"
  "messageType (catch_popup m s) = Error"
  "showMessage (catch_popup m s) = True"
  by (simp_all add: catch_popup_def)

lemma fetch_fields [simp]:
  "users (fetch r s) = users s"
  "newUser (fetch r s) = newUser s"
  "isEditing (fetch r s) = isEditing s"
  "editingId (fetch r s) = editingId s"
  "confirmVisible (fetch r s) = confirmVisible s"
  "confirmUserId (fetch r s) = confirmUserId s"
  "requests (fetch r s) = requests s @ [r]"
  "now (fetch r s) = now s"
  "message (fetch r s) = message s"
  "messageType (fetch r s) = messageType s"
  "showMessage (fetch r s) = showMessage s"
  "timers (fetch r s) = timers s"
  by (simp_all add: fetch_def)

lemma fetchUsers_fields [simp]:
  "newUser (fetchUsers rt listed s) = newUser s"
  "isEditing (fetchUsers rt listed s) = isEditing s"
  "editingId (fetchUsers rt listed s) = editingId s"
  "confirmVisible (fetchUsers rt listed s) = confirmVisible s"
  "confirmUserId (fetchUsers rt listed s) = confirmUserId s"
  "requests (fetchUsers rt listed s) = requests s @ [list_request]"
  "now (fetchUsers rt listed s) = now s"
  by (simp_all add: fetchUsers_def Let_def split: response.splits json_result.splits)

lemma fetchUsers_users:
  "users (fetchUsers rt listed s) =
     (case listed_users listed of None \<Rightarrow> users s | Some us \<Rightarrow> us)"
  by (cases listed rule: listed_users.cases)
     (simp_all add: fetchUsers_def Let_def split: json_result.splits)

lemma cancelEdit_fields [simp]:
  "users (cancelEdit s) = users s"
  "newUser (cancelEdit s) = empty_user"
  "isEditing (cancelEdit s) = False"
  "editingId (cancelEdit s) = None"
  "confirmVisible (cancelEdit s) = confirmVisible s"
  "confirmUserId (cancelEdit s) = confirmUserId s"
  "requests (cancelEdit s) = requests s"
  "now (cancelEdit s) = now s"
  "message (cancelEdit s) = 0x274C # ascii '' Edit cancelled''"
  "messageType (cancelEdit s) = Error"
  "showMessage (cancelEdit s) = True"
  by (simp_all add: cancelEdit_def)

lemma issued_append [simp]: "requests s' = requests s @ rs \<Longrightarrow> issued s s' = rs"
  by (simp add: issued_def)

lemma issued_same [simp]: "issued s s = []"
  by (simp add: issued_def)


lemma addUser_requests:
  "requests (addUser rt reply listed s) =
     (if name (newUser s) = [] \<or> email (newUser s) = [] then requests s
      else requests s @ create_request (newUser s) # (if is_ok reply then [list_request] else []))"
  by (cases reply rule: is_ok.cases)
     (simp_all add: addUser_def Let_def split: json_result.splits)

lemma addUser_newUser:
  "newUser (addUser rt reply listed s) =
     (if name (newUser s) \<noteq> [] \<and> email (newUser s) \<noteq> [] \<and> is_ok reply then empty_user else newUser s)"
  by (cases reply rule: is_ok.cases)
     (simp_all add: addUser_def Let_def split: json_result.splits)

lemma addUser_frame [simp]:
  "isEditing (addUser rt reply listed s) = isEditing s"
  "editingId (addUser rt reply listed s) = editingId s"
  "confirmVisible (addUser rt reply listed s) = confirmVisible s"
  "confirmUserId (addUser rt reply listed s) = confirmUserId s"
  by (simp_all add: addUser_def Let_def split: response.splits json_result.splits)


lemma updateUser_frame [simp]:
  "confirmVisible (updateUser rt reply listed s) = confirmVisible s"
  "confirmUserId (updateUser rt reply listed s) = confirmUserId s"
  by (simp_all add: updateUser_def Let_def split: response.splits json_result.splits option.splits)

lemma updateUser_failed:
  "\<not> is_ok reply \<Longrightarrow> newUser (updateUser rt reply listed s) = newUser s"
  "\<not> is_ok reply \<Longrightarrow> isEditing (updateUser rt reply listed s) = isEditing s"
  "\<not> is_ok reply \<Longrightarrow> editingId (updateUser rt reply listed s) = editingId s"
  "\<not> is_ok reply \<Longrightarrow> users (updateUser rt reply listed s) = users s"
  by (cases reply rule: is_ok.cases;
      simp add: updateUser_def Let_def split: json_result.splits option.splits)+

lemma updateUser_ok:
  assumes "editingId s = Some i" "i \<noteq> 0" "is_ok reply"
  shows "updateUser rt reply listed s =
           showPopup (0x2705 # ascii '' User updated successfully!'') Success
             (cancelEdit (fetchUsers rt listed (fetch (update_request rt i (newUser s)) s)))"
  using assms by (cases reply rule: is_ok.cases) (simp_all add: updateUser_def Let_def)


lemma deleteUser_frame [simp]:
  "newUser (deleteUser rt i reply listed s) = newUser s"
  "isEditing (deleteUser rt i reply listed s) = isEditing s"
  "editingId (deleteUser rt i reply listed s) = editingId s"
  "confirmVisible (deleteUser rt i reply listed s) = confirmVisible s"
  "confirmUserId (deleteUser rt i reply listed s) = confirmUserId s"
  by (simp_all add: deleteUser_def Let_def split: response.splits json_result.splits)

lemma deleteUser_failed:
  "\<not> is_ok reply \<Longrightarrow> users (deleteUser rt i reply listed s) = users s"
  by (cases reply rule: is_ok.cases)
     (simp_all add: deleteUser_def Let_def split: json_result.splits)


lemma confirmDelete_frame [simp]:
  "newUser (confirmDelete rt reply listed s) = newUser s"
  "isEditing (confirmDelete rt reply listed s) = isEditing s"
  "editingId (confirmDelete rt reply listed s) = editingId s"
  by (simp_all add: confirmDelete_def split: option.splits)

lemma elapse_fields [simp]:
  "users (elapse d s) = users s"
  "newUser (elapse d s) = newUser s"
  "isEditing (elapse d s) = isEditing s"
  "editingId (elapse d s) = editingId s"
  "confirmVisible (elapse d s) = confirmVisible s"
  "confirmUserId (elapse d s) = confirmUserId s"
  "requests (elapse d s) = requests s"
  "now (elapse d s) = now s + d"
  "message (elapse d s) = message s"
  "messageType (elapse d s) = messageType s"
  by (simp_all add: elapse_def Let_def)

lemma elapse_showMessage:
  "showMessage (elapse d s) = (showMessage s \<and> (\<forall>t \<in> set (timers s). now s + d < t))"
  by (auto simp add: elapse_def Let_def filter_empty_conv not_le)

lemma step_consistent: "consistent s \<Longrightarrow> consistent (step rt s ev)"
proof (cases ev)
  case (ClickUpdate reply listed)
  assume c: "consistent s"
  show ?thesis
  proof (cases "is_ok reply \<and> editingId s \<noteq> None \<and> editingId s \<noteq> Some 0")
    case True
    then obtain i where "editingId s = Some i" "i \<noteq> 0" "is_ok reply" by auto
    from updateUser_ok[OF this] c show ?thesis
      using ClickUpdate by (simp add: consistent_def)
  next
    case False
    then consider "\<not> is_ok reply" | "editingId s = None" | "editingId s = Some 0" by blast
    then show ?thesis
    proof cases
      case 1
      with c ClickUpdate show ?thesis by (simp add: consistent_def updateUser_failed)
    next
      case 2
      with c ClickUpdate show ?thesis by (simp add: updateUser_def)
    next
      case 3
      with c ClickUpdate show ?thesis by (simp add: updateUser_def)
    qed
  qed
next
  case (ClickConfirmYes reply listed)
  assume "consistent s"
  with ClickConfirmYes show ?thesis
    by (simp add: consistent_def confirmDelete_def split: option.splits)
qed (simp_all add: consistent_def editUser_def openConfirm_def cancelDelete_def)

lemma foldl_consistent: "consistent s \<Longrightarrow> consistent (foldl (step rt) s evs)"
  by (induction evs arbitrary: s) (simp_all add: step_consistent)


lemma addUser_users_failed:
  "\<not> is_ok reply \<Longrightarrow> users (addUser rt reply listed s) = users s"
  by (cases reply rule: is_ok.cases)
     (simp_all add: addUser_def Let_def split: json_result.splits)


lemma addUser_guard_fails:
  assumes "name (newUser s) = [] \<or> email (newUser s) = []"
  shows "addUser rt reply listed s = showPopup (ascii ''Please fill all fields'') Error s"
  using assms by (simp add: addUser_def)

lemma values_error_already_exists:
  "values_error rt already_exists fallback = ascii ''already exists''"
  by (simp add: values_error_def already_exists_def flat_def array_join_def Let_def ascii_def)

lemma updateUser_not_ok:
  assumes "editingId s = Some i" "i \<noteq> 0"
  shows "updateUser rt (NotOk (Returns errData)) listed s =
           catch_popup (values_error rt errData (ascii ''Failed to update user''))
             (fetch (update_request rt i (newUser s)) s)"
  using assms by (simp add: updateUser_def Let_def)

subsection \<open>The decimal text of an identifier reads back as the identifier\<close>










section \<open>Properties of the view\<close>

subsection \<open>Deletion in two steps\<close>



subsection \<open>The presence check of Create\<close>

text \<open>
  C2. When the name or the email of the draft is empty, \<open>addUser\<close> issues no request
  and shows the popup "Please fill all fields" of the kind error. When both are filled,
  it issues one POST request, to the address of the collection, whose body is the object
  of the draft's name and email without the identifier; the only other request it may
  issue is the list request that follows a reply that is ok.
\<close>

theorem addUser_presence_guard:
  "(name (newUser s) = [] \<or> email (newUser s) = [] \<longrightarrow>
      issued s (addUser rt reply listed s) = []
      \<and> messageType (addUser rt reply listed s) = Error
      \<and> showMessage (addUser rt reply listed s)
      \<and> message (addUser rt reply listed s) = ascii ''Please fill all fields'')
   \<and> (name (newUser s) \<noteq> [] \<and> email (newUser s) \<noteq> [] \<longrightarrow>
      issued s (addUser rt reply listed s) =
        create_request (newUser s) # (if is_ok reply then [list_request] else [])
      \<and> filter (\<lambda>r. req_method r = POST) (issued s (addUser rt reply listed s)) =
          [create_request (newUser s)])
   \<and> create_request u =
        \<lparr>req_method = POST, url = API_URL, headers = json_headers,
         body = Some (JObj [(ascii ''name'', JStr (name u)), (ascii ''email'', JStr (email u))])\<rparr>"
proof -
  have a: "name (newUser s) = [] \<or> email (newUser s) = [] \<longrightarrow>
      issued s (addUser rt reply listed s) = []
      \<and> messageType (addUser rt reply listed s) = Error
      \<and> showMessage (addUser rt reply listed s)
      \<and> message (addUser rt reply listed s) = ascii ''Please fill all fields''"
    by (auto simp add: addUser_guard_fails issued_def)
  have b: "name (newUser s) \<noteq> [] \<and> email (newUser s) \<noteq> [] \<longrightarrow>
      issued s (addUser rt reply listed s) =
        create_request (newUser s) # (if is_ok reply then [list_request] else [])"
    by (simp add: addUser_requests)
  have c: "filter (\<lambda>r. req_method r = POST)
             (create_request (newUser s) # (if is_ok reply then [list_request] else [])) =
           [create_request (newUser s)]"
    by (simp add: create_request_def list_request_def)
  have d: "create_request u =
        \<lparr>req_method = POST, url = API_URL, headers = json_headers,
         body = Some (JObj [(ascii ''name'', JStr (name u)), (ascii ''email'', JStr (email u))])\<rparr>"
    by (simp add: create_request_def name_email_def)
  from a b c d show ?thesis by presburger
qed

text \<open>The theorem at a draft with an empty email and at a draft with both fields filled.\<close>

theorem addUser_presence_guard_witness:
  "(name (newUser (init\<lparr>newUser := \<lparr>id_user = 0, name = ascii ''Ann'', email = []\<rparr>\<rparr>)) = []
     \<or> email (newUser (init\<lparr>newUser := \<lparr>id_user = 0, name = ascii ''Ann'', email = []\<rparr>\<rparr>)) = [])
   \<and> requests (addUser \<lparr>nullProperty = [], nullToObject = [], largeNumber = (\<lambda>i. [])\<rparr> (Ok ()) (Ok (Returns []))
        (init\<lparr>newUser := \<lparr>id_user = 0, name = ascii ''Ann'', email = []\<rparr>\<rparr>)) = []
   \<and> messageType (addUser \<lparr>nullProperty = [], nullToObject = [], largeNumber = (\<lambda>i. [])\<rparr> (Ok ()) (Ok (Returns []))
        (init\<lparr>newUser := \<lparr>id_user = 0, name = ascii ''Ann'', email = []\<rparr>\<rparr>)) = Error
   \<and> name (newUser (init\<lparr>newUser := \<lparr>id_user = 0, name = ascii ''Ann'', email = ascii ''ann@example.org''\<rparr>\<rparr>)) \<noteq> []
   \<and> email (newUser (init\<lparr>newUser := \<lparr>id_user = 0, name = ascii ''Ann'', email = ascii ''ann@example.org''\<rparr>\<rparr>)) \<noteq> []
   \<and> requests (addUser \<lparr>nullProperty = [], nullToObject = [], largeNumber = (\<lambda>i. [])\<rparr> (Ok ()) (Ok (Returns []))
        (init\<lparr>newUser := \<lparr>id_user = 0, name = ascii ''Ann'', email = ascii ''ann@example.org''\<rparr>\<rparr>)) =
      [\<lparr>req_method = POST, url = API_URL, headers = json_headers,
        body = Some (JObj [(ascii ''name'', JStr (ascii ''Ann'')),
                           (ascii ''email'', JStr (ascii ''ann@example.org''))])\<rparr>,
       list_request]"
  using addUser_presence_guard [where rt = "\<lparr>nullProperty = [], nullToObject = [], largeNumber = (\<lambda>i. [])\<rparr>"
      and reply = "Ok ()" and listed = "Ok (Returns [])"
      and s = "init\<lparr>newUser := \<lparr>id_user = 0, name = ascii ''Ann'', email = []\<rparr>\<rparr>"]
    addUser_presence_guard [where rt = "\<lparr>nullProperty = [], nullToObject = [], largeNumber = (\<lambda>i. [])\<rparr>"
      and reply = "Ok ()" and listed = "Ok (Returns [])"
      and u = "\<lparr>id_user = 0, name = ascii ''Ann'', email = ascii ''ann@example.org''\<rparr>"
      and s = "init\<lparr>newUser := \<lparr>id_user = 0, name = ascii ''Ann'', email = ascii ''ann@example.org''\<rparr>\<rparr>"]
  by (simp add: issued_def init_def ascii_def)

subsection \<open>Update refused by the server\<close>

text \<open>
  C3, as the specification states it: after the reply \<^verbatim>\<open>{"email":["already exists"]}\<close> to
  an update, the text of the popup equals "already exists". It does not: the
  \<^verbatim>\<open>catch\<close> block puts the warning sign and a space before the message of the error.
\<close>

theorem update_conflict_message_counterexample:
  "message (updateUser \<lparr>nullProperty = [], nullToObject = [], largeNumber = (\<lambda>i. [])\<rparr>
      (NotOk (Returns already_exists)) (Ok (Returns [])) (editUser ann init))
   \<noteq> ascii ''already exists''"
proof -
  have "updateUser \<lparr>nullProperty = [], nullToObject = [], largeNumber = (\<lambda>i. [])\<rparr>
      (NotOk (Returns already_exists)) (Ok (Returns [])) (editUser ann init) =
        catch_popup (ascii ''already exists'')
          (fetch (update_request \<lparr>nullProperty = [], nullToObject = [], largeNumber = (\<lambda>i. [])\<rparr> 7
             (newUser (editUser ann init))) (editUser ann init))"
    by (simp add: updateUser_not_ok values_error_already_exists editUser_def ann_def)
  then show ?thesis
    by (simp add: warning_def ascii_def)
qed

text \<open>
  C3, amended. While a record with a non-zero identifier is edited, an update that is
  answered with a status that is not ok and the body \<^verbatim>\<open>{"email":["already exists"]}\<close>
  shows a popup of the kind error whose text is the warning sign, a space and
  "already exists" (the values of the body, arrays flattened, joined with ", "); the
  edit-mode flag, the editing identifier and the draft are as before.
\<close>

theorem update_conflict_message:
  "editingId s = Some i \<and> i \<noteq> 0 \<longrightarrow>
     message (updateUser rt (NotOk (Returns already_exists)) listed s) =
       warning @ ascii '' already exists''
     \<and> messageType (updateUser rt (NotOk (Returns already_exists)) listed s) = Error
     \<and> showMessage (updateUser rt (NotOk (Returns already_exists)) listed s)
     \<and> isEditing (updateUser rt (NotOk (Returns already_exists)) listed s) = isEditing s
     \<and> editingId (updateUser rt (NotOk (Returns already_exists)) listed s) = Some i
     \<and> newUser (updateUser rt (NotOk (Returns already_exists)) listed s) = newUser s"
proof
  assume a: "editingId s = Some i \<and> i \<noteq> 0"
  then have "updateUser rt (NotOk (Returns already_exists)) listed s =
           catch_popup (ascii ''already exists'') (fetch (update_request rt i (newUser s)) s)"
    by (simp add: updateUser_not_ok values_error_already_exists)
  with a show "message (updateUser rt (NotOk (Returns already_exists)) listed s) =
       warning @ ascii '' already exists''
     \<and> messageType (updateUser rt (NotOk (Returns already_exists)) listed s) = Error
     \<and> showMessage (updateUser rt (NotOk (Returns already_exists)) listed s)
     \<and> isEditing (updateUser rt (NotOk (Returns already_exists)) listed s) = isEditing s
     \<and> editingId (updateUser rt (NotOk (Returns already_exists)) listed s) = Some i
     \<and> newUser (updateUser rt (NotOk (Returns already_exists)) listed s) = newUser s"
    by (simp add: ascii_def)
qed

text \<open>The theorem while the record 7 is edited.\<close>

theorem update_conflict_message_witness:
  "editingId (editUser ann init) = Some 7 \<and> (7::int) \<noteq> 0
   \<and> message (updateUser \<lparr>nullProperty = [], nullToObject = [], largeNumber = (\<lambda>i. [])\<rparr>
        (NotOk (Returns already_exists)) (Ok (Returns [])) (editUser ann init)) =
      [0x26A0, 0xFE0F] @ ascii '' already exists''
   \<and> isEditing (updateUser \<lparr>nullProperty = [], nullToObject = [], largeNumber = (\<lambda>i. [])\<rparr>
        (NotOk (Returns already_exists)) (Ok (Returns [])) (editUser ann init))
   \<and> newUser (updateUser \<lparr>nullProperty = [], nullToObject = [], largeNumber = (\<lambda>i. [])\<rparr>
        (NotOk (Returns already_exists)) (Ok (Returns [])) (editUser ann init)) = ann"
  using update_conflict_message [where i = 7 and s = "editUser ann init"
      and rt = "\<lparr>nullProperty = [], nullToObject = [], largeNumber = (\<lambda>i. [])\<rparr>" and listed = "Ok (Returns [])"]
  by (simp add: editUser_def ann_def warning_def)

subsection \<open>The popup and its timers\<close>

text \<open>
  C4, as the specification states it: a second popup shown before the delay of the first
  has elapsed restarts the timer, so that it stays visible for the full 2000 ms. It does
  not: a second popup shown at 1000 ms is hidden at 2000 ms, by the callback of the
  first.
\<close>

theorem popup_restart_counterexample:
  "now (showPopup (ascii ''second'') Error
       (elapse 1000 (showPopup (ascii ''first'') Success init))) = 1000
   \<and> \<not> showMessage (elapse 1000 (showPopup (ascii ''second'') Error
       (elapse 1000 (showPopup (ascii ''first'') Success init))))"
  by (simp add: init_def elapse_def showPopup_def)

text \<open>
  C4, amended. \<open>showPopup\<close> makes the popup visible at once, whatever its kind, and adds a
  callback due 2000 ms later to the pending ones, cancelling none. With no other event,
  the popup is visible \<open>d\<close> ms later exactly when \<open>d < 2000\<close> and no callback that was
  already pending has come due; so it is hidden once 2000 ms have passed, it is visible
  for exactly 2000 ms when no callback was pending, and a second popup shown \<open>d1 < 2000\<close>
  ms after a first one is hidden as soon as 2000 ms have passed since the first.
\<close>

theorem popup_timers_stack:
  "showMessage (showPopup m k s)
   \<and> timers (showPopup m k s) = timers s @ [now s + 2000]
   \<and> showMessage (elapse d (showPopup m k s)) =
       (d < 2000 \<and> (\<forall>t \<in> set (timers s). now s + d < t))
   \<and> (2000 \<le> d \<longrightarrow> \<not> showMessage (elapse d (showPopup m k s)))
   \<and> (timers s = [] \<longrightarrow> showMessage (elapse d (showPopup m k s)) = (d < 2000))
   \<and> (d1 < 2000 \<and> 2000 \<le> d1 + d2 \<longrightarrow>
        \<not> showMessage (elapse d2 (showPopup m' k' (elapse d1 (showPopup m k s)))))"
proof -
  have a: "showMessage (elapse d (showPopup m k s)) =
       (d < 2000 \<and> (\<forall>t \<in> set (timers s). now s + d < t))" for d m k s
    by (auto simp add: elapse_showMessage)
  have b: "now s + 2000 \<in> set (timers (elapse d1 (showPopup m k s)))" if "d1 < 2000"
    using that by (simp add: elapse_def Let_def)
  have c: "\<not> showMessage (elapse d2 (showPopup m' k' (elapse d1 (showPopup m k s))))"
    if "d1 < 2000" "2000 \<le> d1 + d2"
  proof -
    from that have "\<not> now (elapse d1 (showPopup m k s)) + d2 < now s + 2000" by simp
    with b[OF that(1)] show ?thesis unfolding a by blast
  qed
  show ?thesis using c by (simp add: a)
qed

text \<open>
  The theorem at a second popup shown 1000 ms after a first: visible 500 ms later, hidden
  1000 ms later; and at a single popup: visible after 1999 ms, hidden after 2000 ms.
\<close>

theorem popup_timers_stack_witness:
  "showMessage (elapse 500 (showPopup (ascii ''second'') Error
       (elapse 1000 (showPopup (ascii ''first'') Success init))))
   \<and> (2000::nat) \<le> 2000
   \<and> \<not> showMessage (elapse 2000 (showPopup (ascii ''first'') Success init))
   \<and> timers init = []
   \<and> showMessage (elapse 1999 (showPopup (ascii ''first'') Success init))
   \<and> (1000::nat) < 2000 \<and> (2000::nat) \<le> 1000 + 1000
   \<and> \<not> showMessage (elapse 1000 (showPopup (ascii ''second'') Error
       (elapse 1000 (showPopup (ascii ''first'') Success init))))"
  using popup_timers_stack [where s = "elapse 1000 (showPopup (ascii ''first'') Success init)"
      and d = 500 and m = "ascii ''second''" and k = Error]
    popup_timers_stack [where s = init and d = 2000 and m = "ascii ''first''" and k = Success
      and ?d1.0 = 1000 and ?d2.0 = 1000 and m' = "ascii ''second''" and k' = Error]
    popup_timers_stack [where s = init and d = 1999 and m = "ascii ''first''" and k = Success]
  by (simp add: init_def elapse_def showPopup_def)

subsection \<open>Update reaches the edited record only\<close>



subsection \<open>Failures keep the data\<close>

text \<open>
  C6. When the reply to the request of \<open>addUser\<close>, \<open>updateUser\<close> or \<open>deleteUser\<close> is not
  ok (the promise rejects, or the status is not a success), the draft and the displayed
  list are as before, and so is the edit mode after \<open>updateUser\<close>. When \<open>fetchUsers\<close>
  gets no list (the promise rejects, the status is not a success, or the body does not
  parse), the displayed list and the draft are as before.
\<close>

theorem failures_keep_data:
  "(\<not> is_ok reply \<longrightarrow>
      newUser (addUser rt reply listed s) = newUser s
      \<and> users (addUser rt reply listed s) = users s)
   \<and> (\<not> is_ok reply \<longrightarrow>
      newUser (updateUser rt reply listed s) = newUser s
      \<and> users (updateUser rt reply listed s) = users s
      \<and> isEditing (updateUser rt reply listed s) = isEditing s
      \<and> editingId (updateUser rt reply listed s) = editingId s)
   \<and> (\<not> is_ok reply \<longrightarrow>
      newUser (deleteUser rt i reply listed s) = newUser s
      \<and> users (deleteUser rt i reply listed s) = users s)
   \<and> (listed_users listed = None \<longrightarrow>
      users (fetchUsers rt listed s) = users s
      \<and> newUser (fetchUsers rt listed s) = newUser s)"
  by (simp add: addUser_newUser addUser_users_failed updateUser_failed deleteUser_failed
        fetchUsers_users)

text \<open>
  The theorem at a create, an update and a delete that the server refuses, and at a list
  request that does not reach the server.
\<close>

theorem failures_keep_data_witness:
  "\<not> is_ok (NotOk (Returns already_exists) :: write_reply)
   \<and> newUser (addUser \<lparr>nullProperty = [], nullToObject = [], largeNumber = (\<lambda>i. [])\<rparr>
        (NotOk (Returns already_exists)) (Ok (Returns [])) (init\<lparr>newUser := ann\<rparr>)) = ann
   \<and> newUser (updateUser \<lparr>nullProperty = [], nullToObject = [], largeNumber = (\<lambda>i. [])\<rparr>
        (NotOk (Returns already_exists)) (Ok (Returns [])) (editUser ann init)) = ann
   \<and> users (deleteUser \<lparr>nullProperty = [], nullToObject = [], largeNumber = (\<lambda>i. [])\<rparr> 7
        (NotOk (Returns already_exists)) (Ok (Returns [])) (init\<lparr>users := [ann]\<rparr>)) = [ann]
   \<and> listed_users (Rejected (ascii ''Failed to fetch'')) = None
   \<and> users (fetchUsers \<lparr>nullProperty = [], nullToObject = [], largeNumber = (\<lambda>i. [])\<rparr>
        (Rejected (ascii ''Failed to fetch'')) (init\<lparr>users := [ann]\<rparr>)) = [ann]"
proof -
  let ?rt = "\<lparr>nullProperty = [], nullToObject = [], largeNumber = (\<lambda>i. [])\<rparr>"
  let ?conflict = "NotOk (Returns already_exists) :: write_reply"
  have h: "\<not> is_ok ?conflict" "listed_users (Rejected (ascii ''Failed to fetch'')) = None"
    by simp_all
  from failures_keep_data [where rt = ?rt and reply = ?conflict and listed = "Ok (Returns [])"
      and s = "init\<lparr>newUser := ann\<rparr>" and i = 7] h
  have a: "newUser (addUser ?rt ?conflict (Ok (Returns [])) (init\<lparr>newUser := ann\<rparr>)) = ann"
    by simp
  from failures_keep_data [where rt = ?rt and reply = ?conflict and listed = "Ok (Returns [])"
      and s = "editUser ann init" and i = 7] h
  have b: "newUser (updateUser ?rt ?conflict (Ok (Returns [])) (editUser ann init)) = ann"
    by (simp add: editUser_def)
  from failures_keep_data [where rt = ?rt and reply = ?conflict and listed = "Ok (Returns [])"
      and s = "init\<lparr>users := [ann]\<rparr>" and i = 7] h
  have c: "users (deleteUser ?rt 7 ?conflict (Ok (Returns [])) (init\<lparr>users := [ann]\<rparr>)) = [ann]"
    by simp
  from failures_keep_data [where rt = ?rt and reply = ?conflict
      and listed = "Rejected (ascii ''Failed to fetch'')"
      and s = "init\<lparr>users := [ann]\<rparr>" and i = 7] h
  have d: "users (fetchUsers ?rt (Rejected (ascii ''Failed to fetch'')) (init\<lparr>users := [ann]\<rparr>))
      = [ann]"
    by simp
  from a b c d h show ?thesis by simp
qed

subsection \<open>Cancelling an edit\<close>

text \<open>
  C7. In every state, \<open>cancelEdit\<close> sets the edit-mode flag to false and the editing
  identifier to \<^verbatim>\<open>null\<close>, resets the draft to the empty record, issues no request and
  shows the popup "Edit cancelled" of the kind error. \<open>editUser\<close> sets the flag, the
  identifier and the draft from the record, and \<open>cancelEdit\<close> right after it leaves the
  draft empty and the edit mode off, with no request issued by the two.
\<close>

theorem cancelEdit_resets:
  "isEditing (cancelEdit s) = False
   \<and> editingId (cancelEdit s) = None
   \<and> newUser (cancelEdit s) = \<lparr>id_user = 0, name = [], email = []\<rparr>
   \<and> requests (cancelEdit s) = requests s
   \<and> messageType (cancelEdit s) = Error
   \<and> showMessage (cancelEdit s)
   \<and> message (cancelEdit s) = 0x274C # ascii '' Edit cancelled''
   \<and> isEditing (editUser u s)
   \<and> editingId (editUser u s) = Some (id_user u)
   \<and> newUser (editUser u s) = u
   \<and> isEditing (cancelEdit (editUser u s)) = False
   \<and> editingId (cancelEdit (editUser u s)) = None
   \<and> newUser (cancelEdit (editUser u s)) = \<lparr>id_user = 0, name = [], email = []\<rparr>
   \<and> requests (cancelEdit (editUser u s)) = requests s"
  by (simp add: empty_user_def editUser_def)

subsection \<open>The two pairs of variables stay consistent\<close>

text \<open>
  C8. After any sequence of events from the initial state, the edit-mode flag is true
  exactly when the editing identifier is not \<^verbatim>\<open>null\<close>, and the confirmation dialog is
  visible exactly when the identifier pending deletion is not \<^verbatim>\<open>null\<close>.
\<close>

theorem consistent_reachable: "consistent (run rt evs)"
  unfolding run_def by (rule foldl_consistent) (simp add: consistent_def init_def)

subsection \<open>Update with a falsy identifier\<close>

text \<open>
  C9. When the editing identifier is \<^verbatim>\<open>null\<close> or 0, \<open>updateUser\<close> returns the state as
  it is and issues no request. So after \<open>editUser\<close> on a record whose identifier is
  0, the edit-mode flag is true and \<open>updateUser\<close> does nothing.
\<close>

theorem updateUser_falsy_identifier:
  "(editingId s = None \<or> editingId s = Some 0 \<longrightarrow>
      updateUser rt reply listed s = s \<and> issued s (updateUser rt reply listed s) = [])
   \<and> (id_user u = 0 \<longrightarrow>
      isEditing (editUser u s)
      \<and> updateUser rt reply listed (editUser u s) = editUser u s)"
  by (simp add: updateUser_def editUser_def split: option.splits)

text \<open>The theorem in the initial state and after editing a record with the identifier 0.\<close>

theorem updateUser_falsy_identifier_witness:
  "editingId init = None
   \<and> updateUser \<lparr>nullProperty = [], nullToObject = [], largeNumber = (\<lambda>i. [])\<rparr> (Ok ()) (Ok (Returns [])) init = init
   \<and> id_user (ann\<lparr>id_user := 0\<rparr>) = 0
   \<and> isEditing (editUser (ann\<lparr>id_user := 0\<rparr>) init)
   \<and> editingId (editUser (ann\<lparr>id_user := 0\<rparr>) init) = Some 0
   \<and> requests (updateUser \<lparr>nullProperty = [], nullToObject = [], largeNumber = (\<lambda>i. [])\<rparr> (Ok ()) (Ok (Returns []))
        (editUser (ann\<lparr>id_user := 0\<rparr>) init)) = []"
  using updateUser_falsy_identifier [where s = init and u = "ann\<lparr>id_user := 0\<rparr>"
      and rt = "\<lparr>nullProperty = [], nullToObject = [], largeNumber = (\<lambda>i. [])\<rparr>" and reply = "Ok ()"
      and listed = "Ok (Returns [])"]
  by (simp add: editUser_def init_def)

subsection \<open>Confirm with nothing pending\<close>

text \<open>
  C10. When no identifier is pending deletion, \<open>confirmDelete\<close> returns the state as it
  is: it issues no request, and the flag of the dialog keeps its value.
\<close>

theorem confirmDelete_nothing_pending:
  "confirmUserId s = None \<longrightarrow>
     confirmDelete rt reply listed s = s
     \<and> issued s (confirmDelete rt reply listed s) = []
     \<and> confirmVisible (confirmDelete rt reply listed s) = confirmVisible s"
  by (simp add: confirmDelete_def)

text \<open>The theorem in a state where the dialog is visible and no identifier is pending.\<close>

theorem confirmDelete_nothing_pending_witness:
  "confirmUserId (init\<lparr>confirmVisible := True\<rparr>) = None
   \<and> confirmVisible (confirmDelete \<lparr>nullProperty = [], nullToObject = [], largeNumber = (\<lambda>i. [])\<rparr> (Ok ()) (Ok (Returns []))
        (init\<lparr>confirmVisible := True\<rparr>))
   \<and> requests (confirmDelete \<lparr>nullProperty = [], nullToObject = [], largeNumber = (\<lambda>i. [])\<rparr> (Ok ()) (Ok (Returns []))
        (init\<lparr>confirmVisible := True\<rparr>)) = []"
  using confirmDelete_nothing_pending [where s = "init\<lparr>confirmVisible := True\<rparr>"
      and rt = "\<lparr>nullProperty = [], nullToObject = [], largeNumber = (\<lambda>i. [])\<rparr>" and reply = "Ok ()"
      and listed = "Ok (Returns [])"]
  by (simp add: init_def)

end
